theory Spec2Isabelle
  imports Main
begin

chapter \<open>dataspine: record schemas, contract validation and batch invariants\<close>

text \<open>
  A shallow embedding of \<^verbatim>\<open>dataspine/schemas/market_data.py\<close>,
  \<^verbatim>\<open>dataspine/schemas/trade_data.py\<close>, \<^verbatim>\<open>dataspine/validation/contracts.py\<close> and
  \<^verbatim>\<open>dataspine/validation/invariants.py\<close>.

  Logging is a side channel and is not part of any returned value; the data a function
  builds for its log record (lists of violations, duplicates, unknown symbols) is kept in
  the model wherever the returned value depends on it.
\<close>

section \<open>Values of the record fields\<close>

subsection \<open>Strings\<close>

text \<open>
  Field strings are modelled for ASCII text: \<open>code c\<close> is the code point of a character,
  \<^verbatim>\<open>str.upper\<close> maps \<^verbatim>\<open>a\<close>..\<^verbatim>\<open>z\<close> to \<^verbatim>\<open>A\<close>..\<^verbatim>\<open>Z\<close> and leaves every other ASCII character
  alone, and \<^verbatim>\<open>str.strip\<close> removes the ASCII characters for which \<^verbatim>\<open>str.isspace\<close> holds
  (tab, line feed, vertical tab, form feed, carriage return, the separators 0x1C..0x1F and
  the space) from both ends. Characters outside ASCII are left as they are by \<open>upper\<close> and
  are not whitespace here.
\<close>

definition code :: "char \<Rightarrow> nat" where
  "code c = of_char c"

definition upper_char :: "char \<Rightarrow> char" where
  "upper_char c = (if 97 \<le> code c \<and> code c \<le> 122 then char_of (code c - 32) else c)"

definition upper :: "string \<Rightarrow> string" where
  "upper s = map upper_char s"

definition isspace :: "char \<Rightarrow> bool" where
  "isspace c = (code c \<in> {9, 10, 11, 12, 13, 28, 29, 30, 31, 32})"

definition strip :: "string \<Rightarrow> string" where
  "strip s = rev (dropWhile isspace (rev (dropWhile isspace s)))"

text \<open>
  \<^verbatim>\<open>SYMBOL_PATTERN = re.compile(r'^[A-Z0-9.]{1,10}$')\<close>, used through \<^verbatim>\<open>.match\<close>. In Python
  \<^verbatim>\<open>$\<close> matches at the end of the string and also just before a line feed that ends the
  string, so one trailing line feed after one to ten characters of the class still matches.
\<close>

definition symbol_class :: "char \<Rightarrow> bool" where
  "symbol_class c =
     ((65 \<le> code c \<and> code c \<le> 90) \<or> (48 \<le> code c \<and> code c \<le> 57) \<or> code c = 46)"

definition SYMBOL_PATTERN_match :: "string \<Rightarrow> bool" where
  "SYMBOL_PATTERN_match v =
     (let body = (if v \<noteq> [] \<and> code (last v) = 10 then butlast v else v)
      in 1 \<le> length body \<and> length body \<le> 10 \<and> list_all symbol_class body)"

definition MAX_DECIMAL_PLACES :: int where
  "MAX_DECIMAL_PLACES = 4"

definition MAX_FUTURE_MINUTES :: int where
  "MAX_FUTURE_MINUTES = 5"

definition MIN_VALID_YEAR :: int where
  "MIN_VALID_YEAR = 2000"

definition VALID_SIDES :: "string list" where
  "VALID_SIDES = [''BUY'', ''SELL'']"

subsection \<open>Decimals\<close>

text \<open>
  A \<^verbatim>\<open>decimal.Decimal\<close> is what \<^verbatim>\<open>as_tuple()\<close> shows: a finite number with a sign
  (\<open>True\<close> for negative), a coefficient and an exponent, standing for the coefficient
  times ten to the exponent, negated when the sign is set; or an infinity with its sign; or
  a quiet NaN; or a signaling NaN. The exponent
  that \<^verbatim>\<open>as_tuple()\<close> returns is an integer for a finite number and a string
  (\<^verbatim>\<open>'F'\<close>, \<^verbatim>\<open>'n'\<close>, \<^verbatim>\<open>'N'\<close>) otherwise.
\<close>

datatype decimal = Finite bool nat int | Infinity bool | NaN | SNaN

datatype exponent = Exponent int | Exponent_F | Exponent_n | Exponent_N

fun as_tuple_exponent :: "decimal \<Rightarrow> exponent" where
  "as_tuple_exponent (Finite sign coefficient e) = Exponent e"
| "as_tuple_exponent (Infinity sign) = Exponent_F"
| "as_tuple_exponent NaN = Exponent_n"
| "as_tuple_exponent SNaN = Exponent_N"

text \<open>
  What the price validators receive before coercion: a \<^verbatim>\<open>Decimal\<close>, or any other object,
  of which the code uses only \<^verbatim>\<open>str(v)\<close>.
\<close>

datatype raw_number = Is_Decimal decimal | Not_Decimal string

subsection \<open>Datetimes\<close>

text \<open>
  Of a \<^verbatim>\<open>datetime\<close> the code reads \<^verbatim>\<open>tzinfo\<close>, \<^verbatim>\<open>utcoffset()\<close> and \<^verbatim>\<open>year\<close>, and compares
  it with \<^verbatim>\<open>datetime.now(UTC) + timedelta(minutes=5)\<close>. A \<open>tzinfo\<close> object is given by what
  its \<^verbatim>\<open>utcoffset\<close> returns, \<^verbatim>\<open>None\<close> or an offset in microseconds; \<open>instant\<close> is the
  position of the datetime on the time line in microseconds, which is what a comparison of
  two aware datetimes compares; \<open>year\<close> is the calendar field.
\<close>

datatype tzinfo = Tzinfo "int option"

record datetime =
  year :: int
  instant :: int
  tzinfo :: "tzinfo option"

definition utcoffset :: "datetime \<Rightarrow> int option" where
  "utcoffset ts = (case tzinfo ts of None \<Rightarrow> None | Some (Tzinfo offset) \<Rightarrow> offset)"

text \<open>\<^verbatim>\<open>now_utc + timedelta(minutes=MAX_FUTURE_MINUTES)\<close>, the clock reading \<open>now_utc\<close> in microseconds.\<close>

definition max_future :: "int \<Rightarrow> int" where
  "max_future now_utc = now_utc + MAX_FUTURE_MINUTES * 60 * 1000000"

subsection \<open>Violation messages and exceptions\<close>

text \<open>
  Every message of the source is \<^verbatim>\<open>"<CONTRACT>: <text>"\<close>. A message is kept as its
  contract tag and its text, the text as a constructor per format string with the
  interpolated values as arguments. \<open>Input_should_be_a_valid\<close> is the framework's own
  message for a value that is not an instance of the declared field type.
\<close>

datatype contract =
    REQUIRED_FIELDS | SYMBOL_FORMAT | PRICE_VALIDITY | QUANTITY_VALIDITY
  | TIMESTAMP_VALIDITY | VOLUME_VALIDITY | TRADE_SPECIFIC

datatype detail =
    Cannot_be_empty string
  | Must_be_uppercase_only string
  | Must_be_1_10_characters nat
  | Must_contain_only_uppercase_digits_periods string
  | Must_be_a_valid_decimal_number string string
  | Must_be_positive string decimal
  | At_most_decimal_places_in string int int decimal
  | At_most_decimal_places string int int
  | Must_be_Decimal_type string string
  | Must_be_timezone_aware
  | Must_be_in_UTC "int option"
  | Cannot_be_5min_in_future datetime
  | Cannot_be_before_year int int
  | Volume_must_be_nonnegative int
  | Missing_required_field string
  | Side_must_be_BUY_or_SELL "string option"

datatype message = Message contract detail | Input_should_be_a_valid string


datatype pyexn = ValueError message | TypeError | AttributeError | InvalidOperation

text \<open>
  \<^verbatim>\<open>v <= 0\<close> on a \<^verbatim>\<open>Decimal\<close>: an ordering comparison with a NaN signals
  \<^verbatim>\<open>InvalidOperation\<close>, which the default context raises.
\<close>

fun le_zero :: "decimal \<Rightarrow> pyexn + bool" where
  "le_zero (Finite sign coefficient e) = Inr (sign \<or> coefficient = 0)"
| "le_zero (Infinity sign) = Inr sign"
| "le_zero NaN = Inl InvalidOperation"
| "le_zero SNaN = Inl InvalidOperation"


text \<open>
  \<^verbatim>\<open>ts > max_future\<close> with an aware right-hand side: \<^verbatim>\<open>TypeError\<close> when \<^verbatim>\<open>ts\<close> has no UTC
  offset (no \<^verbatim>\<open>tzinfo\<close>, or one whose \<^verbatim>\<open>utcoffset\<close> is \<^verbatim>\<open>None\<close>).
\<close>

definition later_than :: "datetime \<Rightarrow> int \<Rightarrow> pyexn + bool" where
  "later_than ts bound =
     (case utcoffset ts of None \<Rightarrow> Inl TypeError | Some offset \<Rightarrow> Inr (instant ts > bound))"


section \<open>Batch invariants (validation/invariants.py)\<close>

subsection \<open>Objects in a batch\<close>

text \<open>
  The invariant functions take \<^verbatim>\<open>list[Any]\<close> and read attributes by name with
  \<^verbatim>\<open>getattr(record, name, None)\<close>. An object is therefore its attribute dictionary;
  \<open>None\<close> stands for both an absent attribute and an attribute holding \<^verbatim>\<open>None\<close>, which
  \<^verbatim>\<open>getattr(_, _, None)\<close> does not distinguish. Attribute values are taken from a type
  \<open>'v\<close>. Where a function looks values up in a dictionary or a set (uniqueness, referential
  integrity), \<open>'v\<close> is a type on which Python's \<^verbatim>\<open>==\<close> is equality, such as strings. Where a
  function applies \<^verbatim>\<open>!=\<close> or \<^verbatim>\<open>>\<close> to the values (idempotency, timestamp ordering), that
  operator of the values is an argument of the model, returning a truth value or raising.
\<close>

type_synonym 'v obj = "string \<rightharpoonup> 'v"

definition getattr :: "'v obj \<Rightarrow> string \<Rightarrow> 'v option" where
  "getattr record name = record name"

subsection \<open>Invariant 1: idempotency\<close>



subsection \<open>Invariant 2: timestamp ordering\<close>






subsection \<open>Invariant 3: batch completeness\<close>

definition null_indices :: "'a option list \<Rightarrow> nat list" where
  "null_indices batch =
     map fst (filter (\<lambda>(i, item). item = None) (zip [0..<length batch] batch))"

definition check_completeness :: "'a option list \<Rightarrow> bool" where
  "check_completeness batch =
     (if batch = [] then False
      else if null_indices batch \<noteq> [] then False
      else True)"

subsection \<open>Invariant 4: uniqueness\<close>

text \<open>
  The scope of a record is the string \<^verbatim>\<open>"__global__"\<close> when no \<^verbatim>\<open>scope_key\<close> is in
  force and \<^verbatim>\<open>getattr(record, scope_key, None)\<close> otherwise. Within one call either every
  record gets the first or every record gets the second, so the two are kept apart by
  constructor. \<^verbatim>\<open>if scope_key:\<close> is false for \<^verbatim>\<open>None\<close> and for the empty string.
\<close>

datatype 'v scope = Global | Scope "'v option"

definition scope_of :: "string option \<Rightarrow> 'v obj \<Rightarrow> 'v scope" where
  "scope_of scope_key record =
     (case scope_key of
        None \<Rightarrow> Global
      | Some sk \<Rightarrow> if sk \<noteq> [] then Scope (getattr record sk) else Global)"

text \<open>
  \<^verbatim>\<open>seen\<close> is \<^verbatim>\<open>{scope: {key_value: [indices]}}\<close>, a \<^verbatim>\<open>defaultdict\<close> of
  \<^verbatim>\<open>defaultdict(list)\<close>: the inner dictionary gets a key only by the \<^verbatim>\<open>append\<close> at the end
  of an iteration. An entry of \<^verbatim>\<open>duplicates\<close> keeps the key value, the scope and the
  indices.
\<close>

type_synonym 'v seen = "'v scope \<Rightarrow> 'v \<rightharpoonup> nat list"

type_synonym 'v duplicate = "'v \<times> 'v scope \<times> nat list"

fun uniqueness_loop ::
  "string \<Rightarrow> string option \<Rightarrow> (nat \<times> 'v obj) list \<Rightarrow> 'v seen \<times> 'v duplicate list
     \<Rightarrow> 'v seen \<times> 'v duplicate list" where
  "uniqueness_loop key scope_key [] (seen, duplicates) = (seen, duplicates)"
| "uniqueness_loop key scope_key ((i, record) # rest) (seen, duplicates) =
     (case getattr record key of
        None \<Rightarrow> uniqueness_loop key scope_key rest (seen, duplicates)
      | Some key_value \<Rightarrow>
          let scope_value = scope_of scope_key record;
              duplicates' =
                (case seen scope_value key_value of
                   Some indices \<Rightarrow> duplicates @ [(key_value, scope_value, indices @ [i])]
                 | None \<Rightarrow> duplicates);
              seen' =
                seen(scope_value := (seen scope_value)
                  (key_value \<mapsto> (case seen scope_value key_value of
                                   None \<Rightarrow> [] | Some indices \<Rightarrow> indices) @ [i]))
          in uniqueness_loop key scope_key rest (seen', duplicates'))"

definition check_uniqueness :: "'v obj list \<Rightarrow> string \<Rightarrow> string option \<Rightarrow> bool" where
  "check_uniqueness records key scope_key =
     (if records = [] then True
      else let (seen, duplicates) =
                 uniqueness_loop key scope_key (zip [0..<length records] records)
                   (\<lambda>scope. Map.empty, [])
           in if duplicates \<noteq> [] then False else True)"

text \<open>
  Two notions used to state what the loop computes: the (scope, key value) pairs of the
  records that have the key, in batch order, and the existence of two records of one scope
  with one key value.
\<close>

definition keyed :: "string \<Rightarrow> string option \<Rightarrow> 'v obj list \<Rightarrow> ('v scope \<times> 'v) list" where
  "keyed key scope_key records =
     map (\<lambda>r. (scope_of scope_key r, the (getattr r key)))
       (filter (\<lambda>r. getattr r key \<noteq> None) records)"

definition collision :: "string \<Rightarrow> string option \<Rightarrow> 'v obj list \<Rightarrow> bool" where
  "collision key sk records \<longleftrightarrow>
     (\<exists>i j k. i < j \<and> j < length records
        \<and> getattr (records ! i) key = Some k \<and> getattr (records ! j) key = Some k
        \<and> scope_of sk (records ! i) = scope_of sk (records ! j))"

subsection \<open>Invariant 5: referential integrity\<close>

text \<open>
  \<^verbatim>\<open>unknown_symbols\<close> is a \<^verbatim>\<open>defaultdict(list)\<close> from symbol to the indices of the
  trades carrying it, kept here as an association list in insertion order.
\<close>

fun append_index :: "'k \<Rightarrow> nat \<Rightarrow> ('k \<times> nat list) list \<Rightarrow> ('k \<times> nat list) list" where
  "append_index k i [] = [(k, [i])]"
| "append_index k i ((k', is) # rest) =
     (if k' = k then (k', is @ [i]) # rest else (k', is) # append_index k i rest)"

fun unknown_symbols_loop ::
  "'v set \<Rightarrow> (nat \<times> 'v obj) list \<Rightarrow> ('v \<times> nat list) list \<Rightarrow> ('v \<times> nat list) list" where
  "unknown_symbols_loop known_symbols [] unknown_symbols = unknown_symbols"
| "unknown_symbols_loop known_symbols ((i, trade) # rest) unknown_symbols =
     (case getattr trade ''symbol'' of
        None \<Rightarrow> unknown_symbols_loop known_symbols rest unknown_symbols
      | Some symbol \<Rightarrow>
          if symbol \<notin> known_symbols
          then unknown_symbols_loop known_symbols rest (append_index symbol i unknown_symbols)
          else unknown_symbols_loop known_symbols rest unknown_symbols)"

definition check_referential_integrity :: "'v obj list \<Rightarrow> 'v set \<Rightarrow> bool \<Rightarrow> bool" where
  "check_referential_integrity trades known_symbols strict =
     (if trades = [] then True
      else let unknown_symbols =
                 unknown_symbols_loop known_symbols (zip [0..<length trades] trades) []
           in if unknown_symbols \<noteq> [] \<and> strict then False else True)"

section \<open>Record schemas\<close>

subsection \<open>Field validators\<close>

text \<open>
  A field validator returns the value or raises. \<open>validate_symbol\<close> and
  \<open>validate_timestamp\<close> are the same in both classes.
\<close>

definition validate_symbol :: "string \<Rightarrow> pyexn + string" where
  "validate_symbol v =
     (if v = [] then Inl (ValueError (Message SYMBOL_FORMAT (Cannot_be_empty ''symbol'')))
      else if v \<noteq> upper v then
        Inl (ValueError (Message SYMBOL_FORMAT (Must_be_uppercase_only v)))
      else if length v < 1 \<or> length v > 10 then
        Inl (ValueError (Message SYMBOL_FORMAT (Must_be_1_10_characters (length v))))
      else if \<not> SYMBOL_PATTERN_match v then
        Inl (ValueError (Message SYMBOL_FORMAT (Must_contain_only_uppercase_digits_periods v)))
      else Inr v)"

text \<open>
  \<open>validate_price\<close> (both classes) and \<open>validate_quantity\<close> have one body and differ in the
  tag and the field name of their messages. \<open>Decimal_of_str\<close> is the library constructor
  \<^verbatim>\<open>Decimal(str(v))\<close>, \<open>None\<close> when it raises.
\<close>

definition check_decimal :: "contract \<Rightarrow> string \<Rightarrow> decimal \<Rightarrow> pyexn + decimal" where
  "check_decimal c field v =
     (case le_zero v of
        Inl e \<Rightarrow> Inl e
      | Inr True \<Rightarrow> Inl (ValueError (Message c (Must_be_positive field v)))
      | Inr False \<Rightarrow>
          (case as_tuple_exponent v of
             Exponent e \<Rightarrow>
               if e < 0 \<and> \<bar>e\<bar> > MAX_DECIMAL_PLACES then
                 Inl (ValueError (Message c
                        (At_most_decimal_places_in field MAX_DECIMAL_PLACES \<bar>e\<bar> v)))
               else Inr v
           | _ \<Rightarrow> Inl TypeError))"

definition validate_decimal ::
  "contract \<Rightarrow> string \<Rightarrow> (string \<Rightarrow> decimal option) \<Rightarrow> raw_number \<Rightarrow> pyexn + decimal" where
  "validate_decimal c field Decimal_of_str v =
     (case v of
        Is_Decimal d \<Rightarrow> check_decimal c field d
      | Not_Decimal s \<Rightarrow>
          (case Decimal_of_str s of
             None \<Rightarrow> Inl (ValueError (Message c (Must_be_a_valid_decimal_number field s)))
           | Some d \<Rightarrow> check_decimal c field d))"

definition validate_price :: "(string \<Rightarrow> decimal option) \<Rightarrow> raw_number \<Rightarrow> pyexn + decimal" where
  "validate_price = validate_decimal PRICE_VALIDITY ''price''"

definition validate_quantity :: "(string \<Rightarrow> decimal option) \<Rightarrow> raw_number \<Rightarrow> pyexn + decimal" where
  "validate_quantity = validate_decimal QUANTITY_VALIDITY ''quantity''"

definition validate_timestamp :: "int \<Rightarrow> datetime \<Rightarrow> pyexn + datetime" where
  "validate_timestamp now_utc v =
     (if tzinfo v = None then
        Inl (ValueError (Message TIMESTAMP_VALIDITY Must_be_timezone_aware))
      else if utcoffset v = None \<or> utcoffset v \<noteq> Some 0 then
        Inl (ValueError (Message TIMESTAMP_VALIDITY (Must_be_in_UTC (utcoffset v))))
      else
        (case later_than v (max_future now_utc) of
           Inl e \<Rightarrow> Inl e
         | Inr True \<Rightarrow> Inl (ValueError (Message TIMESTAMP_VALIDITY (Cannot_be_5min_in_future v)))
         | Inr False \<Rightarrow>
             if year v < MIN_VALID_YEAR then
               Inl (ValueError (Message TIMESTAMP_VALIDITY
                      (Cannot_be_before_year MIN_VALID_YEAR (year v))))
             else Inr v))"

definition validate_volume :: "int \<Rightarrow> pyexn + int" where
  "validate_volume v =
     (if v < 0 then Inl (ValueError (Message VOLUME_VALIDITY (Volume_must_be_nonnegative v)))
      else Inr v)"

text \<open>
  \<open>validate_source\<close>, \<open>validate_trade_id\<close>, \<open>validate_client_id\<close> and \<open>validate_venue\<close>: one
  body, \<^verbatim>\<open>if not v or not v.strip()\<close>, with the field name in the message.
\<close>

definition validate_non_empty :: "string \<Rightarrow> string \<Rightarrow> pyexn + string" where
  "validate_non_empty field v =
     (if v = [] \<or> strip v = [] then
        Inl (ValueError (Message REQUIRED_FIELDS (Cannot_be_empty field)))
      else Inr v)"

definition validate_source :: "string \<Rightarrow> pyexn + string" where
  "validate_source = validate_non_empty ''source''"

definition validate_trade_id :: "string \<Rightarrow> pyexn + string" where
  "validate_trade_id = validate_non_empty ''trade_id''"

definition validate_client_id :: "string \<Rightarrow> pyexn + string" where
  "validate_client_id = validate_non_empty ''client_id''"

definition validate_venue :: "string \<Rightarrow> pyexn + string" where
  "validate_venue = validate_non_empty ''venue''"

text \<open>\<open>validate_side\<close> runs before the type check, on any value, \<^verbatim>\<open>None\<close> included.\<close>

definition validate_side :: "string option \<Rightarrow> pyexn + string" where
  "validate_side v =
     (case v of
        None \<Rightarrow> Inl (ValueError (Message TRADE_SPECIFIC (Side_must_be_BUY_or_SELL v)))
      | Some s \<Rightarrow>
          if s \<notin> set VALID_SIDES then
            Inl (ValueError (Message TRADE_SPECIFIC (Side_must_be_BUY_or_SELL v)))
          else Inr s)"

subsection \<open>Records\<close>

text \<open>
  A record of either class as the contract validator can meet it: every field holds a
  value of its declared type or \<^verbatim>\<open>None\<close>, the latter only in a record assembled without
  the constructor (\<^verbatim>\<open>model_construct\<close>).
\<close>

record MarketData =
  md_symbol :: "string option"
  md_price :: "decimal option"
  md_timestamp :: "datetime option"
  md_volume :: "int option"
  md_source :: "string option"

record TradeData =
  td_trade_id :: "string option"
  td_client_id :: "string option"
  td_symbol :: "string option"
  td_side :: "string option"
  td_quantity :: "decimal option"
  td_price :: "decimal option"
  td_timestamp :: "datetime option"
  td_venue :: "string option"

subsection \<open>Construction\<close>

text \<open>
  The raw keyword arguments of a constructor call. The classes are declared with
  \<^verbatim>\<open>strict=True\<close>: a field takes an instance of its declared type and nothing else, so a raw
  value is such an instance or \<^verbatim>\<open>None\<close>; the fields with a \<^verbatim>\<open>mode="before"\<close> validator
  (price, quantity, side) hand the raw value to the validator first.
\<close>

record RawMarketData =
  raw_md_symbol :: "string option"
  raw_md_price :: raw_number
  raw_md_timestamp :: "datetime option"
  raw_md_volume :: "int option"
  raw_md_source :: "string option"

record RawTradeData =
  raw_td_trade_id :: "string option"
  raw_td_client_id :: "string option"
  raw_td_symbol :: "string option"
  raw_td_side :: "string option"
  raw_td_quantity :: raw_number
  raw_td_price :: raw_number
  raw_td_timestamp :: "datetime option"
  raw_td_venue :: "string option"

text \<open>
  The framework runs the validators of the fields in declaration order. A \<^verbatim>\<open>ValueError\<close>
  raised by a validator ends the validation of that field and becomes its entry in the
  \<^verbatim>\<open>ValidationError\<close> raised after the last field; any other exception leaves the
  constructor at once.
\<close>

datatype 'a field_outcome = Accepted 'a | Rejected message | Raised pyexn

definition run_validator :: "pyexn + 'a \<Rightarrow> 'a field_outcome" where
  "run_validator r =
     (case r of
        Inr v \<Rightarrow> Accepted v
      | Inl (ValueError m) \<Rightarrow> Rejected m
      | Inl e \<Rightarrow> Raised e)"

definition strict_field :: "string \<Rightarrow> ('a \<Rightarrow> pyexn + 'a) \<Rightarrow> 'a option \<Rightarrow> 'a field_outcome" where
  "strict_field ty validator raw =
     (case raw of
        None \<Rightarrow> Rejected (Input_should_be_a_valid ty)
      | Some v \<Rightarrow> run_validator (validator v))"

fun accepted :: "'a field_outcome \<Rightarrow> 'a option" where
  "accepted (Accepted v) = Some v"
| "accepted (Rejected m) = None"
| "accepted (Raised e) = None"

fun field_errors :: "string \<Rightarrow> 'a field_outcome \<Rightarrow> (string \<times> message) list" where
  "field_errors field (Accepted v) = []"
| "field_errors field (Rejected m) = [(field, m)]"
| "field_errors field (Raised e) = []"

fun raised :: "'a field_outcome \<Rightarrow> pyexn list" where
  "raised (Accepted v) = []"
| "raised (Rejected m) = []"
| "raised (Raised e) = [e]"

datatype construction_error = ValidationError "(string \<times> message) list" | Propagated pyexn

definition MarketData_init ::
  "int \<Rightarrow> (string \<Rightarrow> decimal option) \<Rightarrow> RawMarketData \<Rightarrow> construction_error + MarketData" where
  "MarketData_init now_utc Decimal_of_str raw =
     (let symbol = strict_field ''string'' validate_symbol (raw_md_symbol raw);
          price = run_validator (validate_price Decimal_of_str (raw_md_price raw));
          timestamp = strict_field ''datetime'' (validate_timestamp now_utc) (raw_md_timestamp raw);
          volume = strict_field ''integer'' validate_volume (raw_md_volume raw);
          source = strict_field ''string'' validate_source (raw_md_source raw)
      in case raised symbol @ raised price @ raised timestamp @ raised volume @ raised source of
           e # _ \<Rightarrow> Inl (Propagated e)
         | [] \<Rightarrow>
             (case (accepted symbol, accepted price, accepted timestamp, accepted volume,
                    accepted source) of
                (Some s, Some p, Some t, Some v, Some src) \<Rightarrow>
                  Inr \<lparr>md_symbol = Some s, md_price = Some p, md_timestamp = Some t,
                       md_volume = Some v, md_source = Some src\<rparr>
              | _ \<Rightarrow>
                  Inl (ValidationError
                        (field_errors ''symbol'' symbol @ field_errors ''price'' price
                         @ field_errors ''timestamp'' timestamp @ field_errors ''volume'' volume
                         @ field_errors ''source'' source))))"

definition TradeData_init ::
  "int \<Rightarrow> (string \<Rightarrow> decimal option) \<Rightarrow> RawTradeData \<Rightarrow> construction_error + TradeData" where
  "TradeData_init now_utc Decimal_of_str raw =
     (let trade_id = strict_field ''string'' validate_trade_id (raw_td_trade_id raw);
          client_id = strict_field ''string'' validate_client_id (raw_td_client_id raw);
          symbol = strict_field ''string'' validate_symbol (raw_td_symbol raw);
          side = run_validator (validate_side (raw_td_side raw));
          quantity = run_validator (validate_quantity Decimal_of_str (raw_td_quantity raw));
          price = run_validator (validate_price Decimal_of_str (raw_td_price raw));
          timestamp = strict_field ''datetime'' (validate_timestamp now_utc) (raw_td_timestamp raw);
          venue = strict_field ''string'' validate_venue (raw_td_venue raw)
      in case raised trade_id @ raised client_id @ raised symbol @ raised side
              @ raised quantity @ raised price @ raised timestamp @ raised venue of
           e # _ \<Rightarrow> Inl (Propagated e)
         | [] \<Rightarrow>
             (case (accepted trade_id, accepted client_id, accepted symbol, accepted side,
                    accepted quantity, accepted price, accepted timestamp, accepted venue) of
                (Some i, Some c, Some s, Some d, Some q, Some p, Some t, Some v) \<Rightarrow>
                  Inr \<lparr>td_trade_id = Some i, td_client_id = Some c, td_symbol = Some s,
                       td_side = Some d, td_quantity = Some q, td_price = Some p,
                       td_timestamp = Some t, td_venue = Some v\<rparr>
              | _ \<Rightarrow>
                  Inl (ValidationError
                        (field_errors ''trade_id'' trade_id @ field_errors ''client_id'' client_id
                         @ field_errors ''symbol'' symbol @ field_errors ''side'' side
                         @ field_errors ''quantity'' quantity @ field_errors ''price'' price
                         @ field_errors ''timestamp'' timestamp @ field_errors ''venue'' venue))))"

section \<open>Contract validation (validation/contracts.py)\<close>

text \<open>
  The methods of \<^verbatim>\<open>ContractValidator\<close>. A method returns its list of messages or raises;
  \<open>now_utc\<close> is the reading of the clock taken by the timestamp check.
\<close>

definition missing_field :: "string \<Rightarrow> 'a option \<Rightarrow> message list" where
  "missing_field field v =
     (if v = None then [Message REQUIRED_FIELDS (Missing_required_field field)] else [])"

definition check_required_fields_market :: "MarketData \<Rightarrow> message list" where
  "check_required_fields_market data =
     missing_field ''symbol'' (md_symbol data) @ missing_field ''price'' (md_price data)
     @ missing_field ''timestamp'' (md_timestamp data) @ missing_field ''volume'' (md_volume data)
     @ missing_field ''source'' (md_source data)"

definition check_required_fields_trade :: "TradeData \<Rightarrow> message list" where
  "check_required_fields_trade data =
     missing_field ''trade_id'' (td_trade_id data) @ missing_field ''client_id'' (td_client_id data)
     @ missing_field ''symbol'' (td_symbol data) @ missing_field ''side'' (td_side data)
     @ missing_field ''quantity'' (td_quantity data) @ missing_field ''price'' (td_price data)
     @ missing_field ''timestamp'' (td_timestamp data) @ missing_field ''venue'' (td_venue data)"

definition check_price_validity :: "decimal option \<Rightarrow> string \<Rightarrow> pyexn + message list" where
  "check_price_validity v field_name =
     (case v of
        None \<Rightarrow> Inr [Message PRICE_VALIDITY (Must_be_Decimal_type field_name ''NoneType'')]
      | Some d \<Rightarrow>
          (case le_zero d of
             Inl e \<Rightarrow> Inl e
           | Inr nonpositive \<Rightarrow>
               Inr ((if nonpositive then [Message PRICE_VALIDITY (Must_be_positive field_name d)]
                     else [])
                    @ (case as_tuple_exponent d of
                         Exponent e \<Rightarrow>
                           if e < 0 \<and> \<bar>e\<bar> > MAX_DECIMAL_PLACES then
                             [Message PRICE_VALIDITY
                                (At_most_decimal_places field_name MAX_DECIMAL_PLACES \<bar>e\<bar>)]
                           else []
                       | _ \<Rightarrow> []))))"

definition check_timestamp_validity :: "int \<Rightarrow> datetime option \<Rightarrow> pyexn + message list" where
  "check_timestamp_validity now_utc v =
     (case v of
        None \<Rightarrow> Inl AttributeError
      | Some ts \<Rightarrow>
          if tzinfo ts = None then Inr [Message TIMESTAMP_VALIDITY Must_be_timezone_aware]
          else
            (case later_than ts (max_future now_utc) of
               Inl e \<Rightarrow> Inl e
             | Inr future \<Rightarrow>
                 Inr ((if utcoffset ts = None \<or> utcoffset ts \<noteq> Some 0 then
                         [Message TIMESTAMP_VALIDITY (Must_be_in_UTC (utcoffset ts))]
                       else [])
                      @ (if future then [Message TIMESTAMP_VALIDITY (Cannot_be_5min_in_future ts)]
                         else [])
                      @ (if year ts < MIN_VALID_YEAR then
                           [Message TIMESTAMP_VALIDITY
                              (Cannot_be_before_year MIN_VALID_YEAR (year ts))]
                         else []))))"

definition check_symbol_format :: "string option \<Rightarrow> message list" where
  "check_symbol_format v =
     (case v of
        None \<Rightarrow> [Message SYMBOL_FORMAT (Cannot_be_empty ''symbol'')]
      | Some symbol \<Rightarrow>
          if symbol = [] then [Message SYMBOL_FORMAT (Cannot_be_empty ''symbol'')]
          else
            (if length symbol < 1 \<or> length symbol > 10 then
               [Message SYMBOL_FORMAT (Must_be_1_10_characters (length symbol))]
             else [])
            @ (if symbol \<noteq> upper symbol then
                 [Message SYMBOL_FORMAT (Must_be_uppercase_only symbol)]
               else [])
            @ (if \<not> SYMBOL_PATTERN_match symbol then
                 [Message SYMBOL_FORMAT (Must_contain_only_uppercase_digits_periods symbol)]
               else []))"

text \<open>\<^verbatim>\<open>not v or not v.strip()\<close> on a string or \<^verbatim>\<open>None\<close>.\<close>

definition blank :: "string option \<Rightarrow> bool" where
  "blank v = (case v of None \<Rightarrow> True | Some s \<Rightarrow> s = [] \<or> strip s = [])"

definition check_trade_specific_rules :: "TradeData \<Rightarrow> pyexn + message list" where
  "check_trade_specific_rules data =
     (case td_quantity data of
        None \<Rightarrow> Inl TypeError
      | Some quantity \<Rightarrow>
          (case le_zero quantity of
             Inl e \<Rightarrow> Inl e
           | Inr nonpositive \<Rightarrow>
               Inr ((if td_side data \<notin> Some ` set VALID_SIDES then
                       [Message TRADE_SPECIFIC (Side_must_be_BUY_or_SELL (td_side data))]
                     else [])
                    @ (if nonpositive then
                         [Message TRADE_SPECIFIC (Must_be_positive ''quantity'' quantity)]
                       else [])
                    @ (if blank (td_trade_id data) then
                         [Message TRADE_SPECIFIC (Cannot_be_empty ''trade_id'')]
                       else [])
                    @ (if blank (td_venue data) then
                         [Message TRADE_SPECIFIC (Cannot_be_empty ''venue'')]
                       else []))))"

definition validate_market_data :: "int \<Rightarrow> MarketData \<Rightarrow> pyexn + bool \<times> message list" where
  "validate_market_data now_utc data =
     (case check_price_validity (md_price data) ''price'' of
        Inl e \<Rightarrow> Inl e
      | Inr price_errors \<Rightarrow>
          (case check_timestamp_validity now_utc (md_timestamp data) of
             Inl e \<Rightarrow> Inl e
           | Inr timestamp_errors \<Rightarrow>
               (let errors = check_required_fields_market data @ price_errors @ timestamp_errors
                             @ check_symbol_format (md_symbol data)
                in Inr (length errors = 0, errors))))"

definition validate_trade_data :: "int \<Rightarrow> TradeData \<Rightarrow> pyexn + bool \<times> message list" where
  "validate_trade_data now_utc data =
     (case check_price_validity (td_price data) ''price'' of
        Inl e \<Rightarrow> Inl e
      | Inr price_errors \<Rightarrow>
          (case check_price_validity (td_quantity data) ''quantity'' of
             Inl e \<Rightarrow> Inl e
           | Inr quantity_errors \<Rightarrow>
               (case check_timestamp_validity now_utc (td_timestamp data) of
                  Inl e \<Rightarrow> Inl e
                | Inr timestamp_errors \<Rightarrow>
                    (case check_trade_specific_rules data of
                       Inl e \<Rightarrow> Inl e
                     | Inr trade_errors \<Rightarrow>
                         (let errors = check_required_fields_trade data @ price_errors
                                       @ quantity_errors @ timestamp_errors
                                       @ check_symbol_format (td_symbol data) @ trade_errors
                          in Inr (length errors = 0, errors))))))"

section \<open>Notions used to state the properties\<close>

text \<open>
  The symbol rules of \<open>validate_symbol\<close>, each applied on its own: the messages of all the
  rules a symbol breaks, in the order in which the validator tests them.
\<close>

definition failing_symbol_rules :: "string \<Rightarrow> message list" where
  "failing_symbol_rules v =
     (if v = [] then [Message SYMBOL_FORMAT (Cannot_be_empty ''symbol'')] else [])
     @ (if v \<noteq> upper v then [Message SYMBOL_FORMAT (Must_be_uppercase_only v)] else [])
     @ (if length v < 1 \<or> length v > 10 then
          [Message SYMBOL_FORMAT (Must_be_1_10_characters (length v))] else [])
     @ (if \<not> SYMBOL_PATTERN_match v then
          [Message SYMBOL_FORMAT (Must_contain_only_uppercase_digits_periods v)] else [])"






section \<open>Properties of the batch invariants\<close>

subsection \<open>Helper facts\<close>

lemma snd_zip_upt: "snd ` set (zip [0..<length xs] xs) = set xs"
proof -
  have "map snd (zip [0..<length xs] xs) = xs" by simp
  then show ?thesis by (metis set_map)
qed

lemma append_index_not_Nil: "append_index k i xs \<noteq> []"
  by (cases "(k, i, xs)" rule: append_index.cases) auto

lemma unknown_symbols_loop_Nil:
  "unknown_symbols_loop known xs acc \<noteq> [] \<longleftrightarrow>
     acc \<noteq> [] \<or> (\<exists>p \<in> set xs. \<exists>s. getattr (snd p) ''symbol'' = Some s \<and> s \<notin> known)"
proof (induction xs arbitrary: acc)
  case Nil
  then show ?case by simp
next
  case (Cons p xs)
  obtain i t where p: "p = (i, t)" by (cases p)
  show ?case
  proof (cases "getattr t ''symbol''")
    case None
    then show ?thesis using Cons.IH[of acc] p by simp
  next
    case (Some s)
    then show ?thesis
      using Cons.IH[of acc] Cons.IH[of "append_index s i acc"] p
      by (cases "s \<in> known") (simp_all add: append_index_not_Nil)
  qed
qed

subsection \<open>Idempotency\<close>







subsection \<open>Timestamp ordering\<close>












subsection \<open>Referential integrity\<close>

text \<open>
  Claim C4. With \<open>strict = False\<close> the check returns true for every batch, whatever the
  symbols; with \<open>strict = True\<close> it returns false exactly when some trade carries a symbol
  outside \<open>known_symbols\<close>; the empty batch passes in both modes. A trade's symbol is the
  value of its \<^verbatim>\<open>symbol\<close> attribute; the loop passes over a trade that has none.
\<close>

theorem check_referential_integrity_modes:
  "check_referential_integrity trades known_symbols False
   \<and> (check_referential_integrity trades known_symbols True \<longleftrightarrow>
        \<not> (\<exists>trade \<in> set trades. \<exists>symbol. getattr trade ''symbol'' = Some symbol \<and> symbol \<notin> known_symbols))
   \<and> check_referential_integrity [] known_symbols strict"
proof -
  let ?bad = "\<lambda>t. \<exists>s. getattr t ''symbol'' = Some s \<and> s \<notin> known_symbols"
  have "(\<exists>p \<in> set (zip [0..<length trades] trades). ?bad (snd p))
        \<longleftrightarrow> (\<exists>t \<in> snd ` set (zip [0..<length trades] trades). ?bad t)"
    by blast
  also have "\<dots> \<longleftrightarrow> (\<exists>t \<in> set trades. ?bad t)"
    by (simp only: snd_zip_upt)
  finally have eq: "(\<exists>p \<in> set (zip [0..<length trades] trades). ?bad (snd p)) \<longleftrightarrow> (\<exists>t \<in> set trades. ?bad t)" .
  have strict: "check_referential_integrity trades known_symbols True \<longleftrightarrow> \<not> (\<exists>t \<in> set trades. ?bad t)"
  proof (cases "trades = []")
    case True
    then show ?thesis by (simp add: check_referential_integrity_def)
  next
    case False
    then show ?thesis
      using unknown_symbols_loop_Nil[of known_symbols "zip [0..<length trades] trades" "[]"] eq
      by (simp add: check_referential_integrity_def Let_def)
  qed
  have "check_referential_integrity trades known_symbols False"
    by (simp add: check_referential_integrity_def Let_def)
  moreover have "check_referential_integrity [] known_symbols strict"
    by (simp add: check_referential_integrity_def)
  ultimately show ?thesis using strict by blast
qed

theorem check_referential_integrity_modes_witness:
  "check_referential_integrity [[''symbol'' \<mapsto> ''ZZZZ'']] {''AAPL''} False
   \<and> \<not> check_referential_integrity [[''symbol'' \<mapsto> ''ZZZZ'']] {''AAPL''} True
   \<and> check_referential_integrity [[''symbol'' \<mapsto> ''AAPL'']] {''AAPL''} True"
  using check_referential_integrity_modes[of "[[''symbol'' \<mapsto> ''ZZZZ'']]" "{''AAPL''}"]
        check_referential_integrity_modes[of "[[''symbol'' \<mapsto> ''AAPL'']]" "{''AAPL''}"]
  by (simp add: getattr_def)

subsection \<open>Uniqueness\<close>

lemma keyed_Nil [simp]: "keyed key sk [] = []"
  by (simp add: keyed_def)

lemma keyed_Cons:
  "keyed key sk (r # rs) =
     (case getattr r key of None \<Rightarrow> keyed key sk rs
      | Some k \<Rightarrow> (scope_of sk r, k) # keyed key sk rs)"
  by (simp add: keyed_def split: option.splits)

lemma uniqueness_loop_duplicates:
  "snd (uniqueness_loop key sk xs (seen, dups)) = [] \<longleftrightarrow>
     dups = [] \<and> distinct (keyed key sk (map snd xs))
     \<and> (\<forall>p \<in> set (keyed key sk (map snd xs)). seen (fst p) (snd p) = None)"
proof (induction xs arbitrary: seen dups)
  case Nil
  then show ?case by simp
next
  case (Cons x xs)
  obtain i r where x: "x = (i, r)" by (cases x)
  show ?case
  proof (cases "getattr r key")
    case None
    then show ?thesis using Cons.IH[of seen dups] x by (simp add: keyed_Cons)
  next
    case (Some k)
    let ?s = "scope_of sk r"
    let ?dups = "case seen ?s k of Some indices \<Rightarrow> dups @ [(k, ?s, indices @ [i])] | None \<Rightarrow> dups"
    let ?seen = "seen(?s := (seen ?s)(k \<mapsto> (case seen ?s k of None \<Rightarrow> [] | Some indices \<Rightarrow> indices) @ [i]))"
    have step: "uniqueness_loop key sk (x # xs) (seen, dups) = uniqueness_loop key sk xs (?seen, ?dups)"
      using Some x by (simp add: Let_def)
    have d: "?dups = [] \<longleftrightarrow> dups = [] \<and> seen ?s k = None"
      by (cases "seen ?s k") simp_all
    have s: "?seen s' k' = None \<longleftrightarrow> (s', k') \<noteq> (?s, k) \<and> seen s' k' = None" for s' k'
      by simp
    have "snd (uniqueness_loop key sk (x # xs) (seen, dups)) = [] \<longleftrightarrow>
          ?dups = [] \<and> distinct (keyed key sk (map snd xs))
          \<and> (\<forall>p \<in> set (keyed key sk (map snd xs)). ?seen (fst p) (snd p) = None)"
      unfolding step by (rule Cons.IH)
    also have "\<dots> \<longleftrightarrow> dups = [] \<and> seen ?s k = None \<and> distinct (keyed key sk (map snd xs))
          \<and> (?s, k) \<notin> set (keyed key sk (map snd xs))
          \<and> (\<forall>p \<in> set (keyed key sk (map snd xs)). seen (fst p) (snd p) = None)"
      unfolding d s by (metis prod.collapse)
    also have "\<dots> \<longleftrightarrow> dups = [] \<and> distinct (keyed key sk (map snd (x # xs)))
          \<and> (\<forall>p \<in> set (keyed key sk (map snd (x # xs))). seen (fst p) (snd p) = None)"
      using Some x by (auto simp: keyed_Cons)
    finally show ?thesis .
  qed
qed

lemma check_uniqueness_distinct:
  "check_uniqueness records key sk \<longleftrightarrow> distinct (keyed key sk records)"
proof (cases "records = []")
  case True
  then show ?thesis by (simp add: check_uniqueness_def)
next
  case False
  have m: "map snd (zip [0..<length records] records) = records" by simp
  show ?thesis
    using False
      uniqueness_loop_duplicates[of key sk "zip [0..<length records] records" "\<lambda>scope. Map.empty" "[]"]
    unfolding m
    by (simp add: check_uniqueness_def case_prod_unfold)
qed

lemma collision_Cons:
  "collision key sk (r # rs) \<longleftrightarrow>
     (\<exists>k. getattr r key = Some k \<and> (\<exists>r' \<in> set rs. getattr r' key = Some k \<and> scope_of sk r' = scope_of sk r))
     \<or> collision key sk rs"
  (is "?L \<longleftrightarrow> ?A \<or> ?B")
proof
  assume ?L
  then obtain i j k where ij: "i < j" "j < length (r # rs)"
    and k: "getattr ((r # rs) ! i) key = Some k" "getattr ((r # rs) ! j) key = Some k"
    and sc: "scope_of sk ((r # rs) ! i) = scope_of sk ((r # rs) ! j)"
    unfolding collision_def by blast
  from ij obtain j' where j': "j = Suc j'" "j' < length rs" by (cases j) auto
  show "?A \<or> ?B"
  proof (cases i)
    case 0
    with k sc j' have "getattr r key = Some k" "getattr (rs ! j') key = Some k"
      "scope_of sk (rs ! j') = scope_of sk r" by simp_all
    moreover have "rs ! j' \<in> set rs" using j' by simp
    ultimately show ?thesis by blast
  next
    case (Suc i')
    with ij k sc j' have "i' < j'" "j' < length rs" "getattr (rs ! i') key = Some k"
      "getattr (rs ! j') key = Some k" "scope_of sk (rs ! i') = scope_of sk (rs ! j')" by simp_all
    then have ?B unfolding collision_def by blast
    then show ?thesis ..
  qed
next
  assume "?A \<or> ?B"
  then show ?L
  proof
    assume ?A
    then obtain k r' where k: "getattr r key = Some k" and r': "r' \<in> set rs" "getattr r' key = Some k"
      "scope_of sk r' = scope_of sk r" by blast
    from r'(1) obtain j where j: "j < length rs" "rs ! j = r'" by (auto simp: in_set_conv_nth)
    have "0 < Suc j" "Suc j < length (r # rs)" "getattr ((r # rs) ! 0) key = Some k"
      "getattr ((r # rs) ! Suc j) key = Some k" "scope_of sk ((r # rs) ! 0) = scope_of sk ((r # rs) ! Suc j)"
      using k r' j by simp_all
    then show ?L unfolding collision_def by blast
  next
    assume ?B
    then obtain i j k where "i < j" "j < length rs" "getattr (rs ! i) key = Some k"
      "getattr (rs ! j) key = Some k" "scope_of sk (rs ! i) = scope_of sk (rs ! j)"
      unfolding collision_def by blast
    then have "Suc i < Suc j" "Suc j < length (r # rs)" "getattr ((r # rs) ! Suc i) key = Some k"
      "getattr ((r # rs) ! Suc j) key = Some k"
      "scope_of sk ((r # rs) ! Suc i) = scope_of sk ((r # rs) ! Suc j)" by simp_all
    then show ?L unfolding collision_def by blast
  qed
qed

lemma in_keyed:
  "(s, k) \<in> set (keyed key sk rs) \<longleftrightarrow> (\<exists>r \<in> set rs. getattr r key = Some k \<and> scope_of sk r = s)"
  by (auto simp: keyed_def image_iff)

lemma distinct_keyed_collision:
  "distinct (keyed key sk records) \<longleftrightarrow> \<not> collision key sk records"
proof (induction records)
  case Nil
  then show ?case by (simp add: collision_def)
next
  case (Cons r rs)
  show ?case
  proof (cases "getattr r key")
    case None
    then show ?thesis using Cons.IH by (simp add: keyed_Cons collision_Cons)
  next
    case (Some k)
    then show ?thesis using Cons.IH by (simp add: keyed_Cons collision_Cons in_keyed)
  qed
qed

lemma keyed_filter:
  "keyed key sk (filter (\<lambda>r. getattr r key \<noteq> None) records) = keyed key sk records"
  by (simp add: keyed_def)


text \<open>
  Claim C6. \<open>check_uniqueness records key scope_key\<close> is true exactly when no two records
  of the same scope carry the same value of the key field, the scope of a record being the
  value of its scope field, or one global scope when no \<^verbatim>\<open>scope_key\<close> is given. Records
  without the key field are skipped: dropping them from the batch does not change the
  result. Two trades with trade id TRD-001 under clients C1 and C2 pass when scoped by
  \<^verbatim>\<open>client_id\<close> and fail in the global scope.
\<close>

theorem check_uniqueness_iff:
  "(check_uniqueness records key scope_key \<longleftrightarrow>
      \<not> (\<exists>i j k. i < j \<and> j < length records
            \<and> getattr (records ! i) key = Some k \<and> getattr (records ! j) key = Some k
            \<and> scope_of scope_key (records ! i) = scope_of scope_key (records ! j)))
   \<and> check_uniqueness (filter (\<lambda>r. getattr r key \<noteq> None) records) key scope_key
       = check_uniqueness records key scope_key
   \<and> check_uniqueness
        [[''trade_id'' \<mapsto> ''TRD-001'', ''client_id'' \<mapsto> ''C1''],
         [''trade_id'' \<mapsto> ''TRD-001'', ''client_id'' \<mapsto> ''C2'']]
        ''trade_id'' (Some ''client_id'')
   \<and> \<not> check_uniqueness
        [[''trade_id'' \<mapsto> ''TRD-001'', ''client_id'' \<mapsto> ''C1''],
         [''trade_id'' \<mapsto> ''TRD-001'', ''client_id'' \<mapsto> ''C2'']]
        ''trade_id'' None"
proof -
  have a: "check_uniqueness records key scope_key \<longleftrightarrow>
      \<not> (\<exists>i j k. i < j \<and> j < length records
            \<and> getattr (records ! i) key = Some k \<and> getattr (records ! j) key = Some k
            \<and> scope_of scope_key (records ! i) = scope_of scope_key (records ! j))"
    unfolding check_uniqueness_distinct distinct_keyed_collision collision_def ..
  have b: "check_uniqueness (filter (\<lambda>r. getattr r key \<noteq> None) records) key scope_key
       = check_uniqueness records key scope_key"
    unfolding check_uniqueness_distinct keyed_filter ..
  have c: "check_uniqueness
        [[''trade_id'' \<mapsto> ''TRD-001'', ''client_id'' \<mapsto> ''C1''],
         [''trade_id'' \<mapsto> ''TRD-001'', ''client_id'' \<mapsto> ''C2'']]
        ''trade_id'' (Some ''client_id'')"
    unfolding check_uniqueness_distinct by (simp add: keyed_def getattr_def scope_of_def)
  have d: "\<not> check_uniqueness
        [[''trade_id'' \<mapsto> ''TRD-001'', ''client_id'' \<mapsto> ''C1''],
         [''trade_id'' \<mapsto> ''TRD-001'', ''client_id'' \<mapsto> ''C2'']]
        ''trade_id'' None"
    unfolding check_uniqueness_distinct by (simp add: keyed_def getattr_def scope_of_def)
  show ?thesis using a b c d by (intro conjI)
qed

theorem check_uniqueness_iff_witness:
  "check_uniqueness [[''id'' \<mapsto> (1::nat)], Map.empty, [''id'' \<mapsto> 2], Map.empty] ''id'' None
   \<and> \<not> check_uniqueness [[''id'' \<mapsto> (1::nat)], Map.empty, [''id'' \<mapsto> 1]] ''id'' None"
proof -
  let ?p = "\<lambda>r :: nat obj. getattr r ''id'' \<noteq> None"
  let ?rs = "[[''id'' \<mapsto> (1::nat)], Map.empty, [''id'' \<mapsto> 2], Map.empty]"
  let ?rs' = "[[''id'' \<mapsto> (1::nat)], Map.empty, [''id'' \<mapsto> 1]]"
  have 1: "check_uniqueness (filter ?p ?rs) ''id'' None = check_uniqueness ?rs ''id'' None"
    by (rule conjunct1[OF conjunct2[OF check_uniqueness_iff]])
  have 2: "check_uniqueness (filter ?p ?rs') ''id'' None = check_uniqueness ?rs' ''id'' None"
    by (rule conjunct1[OF conjunct2[OF check_uniqueness_iff]])
  have 3: "filter ?p ?rs = [[''id'' \<mapsto> 1], [''id'' \<mapsto> 2]]"
    by (simp add: getattr_def)
  have 4: "filter ?p ?rs' = [[''id'' \<mapsto> 1], [''id'' \<mapsto> 1]]"
    by (simp add: getattr_def)
  have 5: "check_uniqueness [[''id'' \<mapsto> (1::nat)], [''id'' \<mapsto> 2]] ''id'' None"
    by (simp add: check_uniqueness_def getattr_def scope_of_def upt_rec)
  have 6: "\<not> check_uniqueness [[''id'' \<mapsto> (1::nat)], [''id'' \<mapsto> 1]] ''id'' None"
    by (simp add: check_uniqueness_def getattr_def scope_of_def upt_rec)
  show ?thesis
    using 1 2 5 6 unfolding 3 4 by simp
qed

text \<open>
  Claim C10. With a \<^verbatim>\<open>scope_key\<close> in force, records that have the key field but not the
  scope field are not skipped: each gets the scope value \<^verbatim>\<open>None\<close>, so two of them with the
  same key value are duplicates of each other and the check returns false.
\<close>

theorem check_uniqueness_missing_scope:
  assumes "scope_key = Some sk" and "sk \<noteq> []"
    and "i < j" and "j < length records"
    and "getattr (records ! i) key = Some k" and "getattr (records ! j) key = Some k"
    and "getattr (records ! i) sk = None" and "getattr (records ! j) sk = None"
  shows "scope_of scope_key (records ! i) = Scope None
       \<and> scope_of scope_key (records ! j) = Scope None
       \<and> \<not> check_uniqueness records key scope_key"
proof -
  have s: "scope_of scope_key (records ! i) = Scope None" "scope_of scope_key (records ! j) = Scope None"
    using assms by (simp_all add: scope_of_def)
  then have "collision key scope_key records"
    unfolding collision_def using assms(3-6) by metis
  then show ?thesis
    using s by (simp add: check_uniqueness_distinct distinct_keyed_collision)
qed

theorem check_uniqueness_missing_scope_witness:
  "\<not> check_uniqueness [[''trade_id'' \<mapsto> ''TRD-001''], [''trade_id'' \<mapsto> ''TRD-001'']]
       ''trade_id'' (Some ''client_id'')"
  using check_uniqueness_missing_scope[of "Some ''client_id''" "''client_id''" 0 1
          "[[''trade_id'' \<mapsto> ''TRD-001''], [''trade_id'' \<mapsto> ''TRD-001'']]" "''trade_id''" "''TRD-001''"]
  by (simp add: getattr_def)

section \<open>Properties of the schemas and of the contract validator\<close>

subsection \<open>Evaluation of strings\<close>

lemma eq_char_of_iff: "c = char_of (n::nat) \<longleftrightarrow> take_bit 8 n = of_char c"
  using char_of_eq_iff[of n c] by auto

lemmas string_eval = code_def upper_def upper_char_def isspace_def strip_def symbol_class_def
  SYMBOL_PATTERN_match_def char_of_eq_iff eq_char_of_iff

subsection \<open>When a field validator accepts\<close>

lemma validate_symbol_first_failing:
  "validate_symbol v =
     (case failing_symbol_rules v of [] \<Rightarrow> Inr v | m # ms \<Rightarrow> Inl (ValueError m))"
  by (simp add: validate_symbol_def failing_symbol_rules_def)

lemma validate_symbol_Inr:
  "validate_symbol v = Inr s \<longleftrightarrow>
     s = v \<and> v \<noteq> [] \<and> v = upper v \<and> length v \<le> 10 \<and> SYMBOL_PATTERN_match v"
  by (auto simp: validate_symbol_def)

lemma check_symbol_format_valid:
  "validate_symbol v = Inr s \<Longrightarrow> check_symbol_format (Some s) = []"
  by (auto simp: validate_symbol_Inr check_symbol_format_def)

lemma check_decimal_Inr:
  "check_decimal c field d = Inr d' \<longleftrightarrow>
     d' = d \<and> (\<exists>coefficient e. d = Finite False coefficient e \<and> 0 < coefficient \<and> - 4 \<le> e)"
  by (cases d) (auto simp: check_decimal_def MAX_DECIMAL_PLACES_def split: bool.splits if_splits)

lemma validate_decimal_Inr:
  "validate_decimal c field P raw = Inr d \<Longrightarrow>
     \<exists>coefficient e. d = Finite False coefficient e \<and> 0 < coefficient \<and> - 4 \<le> e"
  by (auto simp: validate_decimal_def check_decimal_Inr split: raw_number.splits option.splits)

lemma check_price_validity_valid:
  "0 < coefficient \<Longrightarrow> - 4 \<le> e \<Longrightarrow>
   check_price_validity (Some (Finite False coefficient e)) field = Inr []"
  by (auto simp: check_price_validity_def MAX_DECIMAL_PLACES_def)

lemma validate_timestamp_Inr:
  "validate_timestamp now v = Inr t \<longleftrightarrow>
     t = v \<and> tzinfo v \<noteq> None \<and> utcoffset v = Some 0
     \<and> instant v \<le> max_future now \<and> MIN_VALID_YEAR \<le> year v"
  by (auto simp: validate_timestamp_def later_than_def split: option.splits bool.splits if_splits)

lemma check_timestamp_validity_valid:
  "validate_timestamp now v = Inr t \<Longrightarrow> now \<le> now' \<Longrightarrow>
   check_timestamp_validity now' (Some t) = Inr []"
  by (auto simp: validate_timestamp_Inr check_timestamp_validity_def later_than_def max_future_def)

lemma validate_non_empty_Inr:
  "validate_non_empty field v = Inr s \<longleftrightarrow> s = v \<and> \<not> blank (Some v)"
  by (auto simp: validate_non_empty_def blank_def)

lemma validate_side_Inr:
  "validate_side v = Inr s \<longleftrightarrow> v = Some s \<and> s \<in> set VALID_SIDES"
  by (auto simp: validate_side_def split: option.splits)

lemma validate_volume_Inr: "validate_volume v = Inr n \<longleftrightarrow> n = v \<and> 0 \<le> v"
  by (auto simp: validate_volume_def)

lemma accepted_run_validator: "accepted (run_validator r) = Some x \<longleftrightarrow> r = Inr x"
  by (auto simp: run_validator_def split: sum.splits pyexn.splits)

lemma accepted_strict_field:
  "accepted (strict_field ty validator raw) = Some x \<longleftrightarrow> (\<exists>v. raw = Some v \<and> validator v = Inr x)"
  by (auto simp: strict_field_def accepted_run_validator split: option.splits)

lemma MarketData_init_Inr:
  assumes "MarketData_init now P raw = Inr d"
  shows "\<exists>s p t v src.
           d = \<lparr>md_symbol = Some s, md_price = Some p, md_timestamp = Some t,
                md_volume = Some v, md_source = Some src\<rparr>
           \<and> accepted (strict_field ''string'' validate_symbol (raw_md_symbol raw)) = Some s
           \<and> accepted (run_validator (validate_price P (raw_md_price raw))) = Some p
           \<and> accepted (strict_field ''datetime'' (validate_timestamp now) (raw_md_timestamp raw)) = Some t
           \<and> accepted (strict_field ''integer'' validate_volume (raw_md_volume raw)) = Some v
           \<and> accepted (strict_field ''string'' validate_source (raw_md_source raw)) = Some src"
  using assms unfolding MarketData_init_def Let_def
  by (auto split: list.splits option.splits)

lemma TradeData_init_Inr:
  assumes "TradeData_init now P raw = Inr d"
  shows "\<exists>i c s sd q p t v.
           d = \<lparr>td_trade_id = Some i, td_client_id = Some c, td_symbol = Some s,
                td_side = Some sd, td_quantity = Some q, td_price = Some p,
                td_timestamp = Some t, td_venue = Some v\<rparr>
           \<and> accepted (strict_field ''string'' validate_trade_id (raw_td_trade_id raw)) = Some i
           \<and> accepted (strict_field ''string'' validate_client_id (raw_td_client_id raw)) = Some c
           \<and> accepted (strict_field ''string'' validate_symbol (raw_td_symbol raw)) = Some s
           \<and> accepted (run_validator (validate_side (raw_td_side raw))) = Some sd
           \<and> accepted (run_validator (validate_quantity P (raw_td_quantity raw))) = Some q
           \<and> accepted (run_validator (validate_price P (raw_td_price raw))) = Some p
           \<and> accepted (strict_field ''datetime'' (validate_timestamp now) (raw_td_timestamp raw)) = Some t
           \<and> accepted (strict_field ''string'' validate_venue (raw_td_venue raw)) = Some v"
  using assms unfolding TradeData_init_def Let_def
  by (auto split: list.splits option.splits)

lemma missing_field_Some [simp]: "missing_field field (Some v) = []"
  by (simp add: missing_field_def)

lemma validate_market_data_constructed:
  assumes "MarketData_init now P raw = Inr d" and "now \<le> now'"
  shows "validate_market_data now' d = Inr (True, [])"
proof -
  from MarketData_init_Inr[OF assms(1)] obtain s p t v src where
    d: "d = \<lparr>md_symbol = Some s, md_price = Some p, md_timestamp = Some t,
             md_volume = Some v, md_source = Some src\<rparr>"
    and s: "accepted (strict_field ''string'' validate_symbol (raw_md_symbol raw)) = Some s"
    and p: "accepted (run_validator (validate_price P (raw_md_price raw))) = Some p"
    and t: "accepted (strict_field ''datetime'' (validate_timestamp now) (raw_md_timestamp raw)) = Some t"
    by blast
  from s obtain s0 where "validate_symbol s0 = Inr s"
    unfolding accepted_strict_field by blast
  then have sym: "check_symbol_format (Some s) = []"
    by (rule check_symbol_format_valid)
  from p have "validate_decimal PRICE_VALIDITY ''price'' P (raw_md_price raw) = Inr p"
    unfolding accepted_run_validator validate_price_def .
  then obtain c e where "p = Finite False c e" "0 < c" "- 4 \<le> e"
    using validate_decimal_Inr by blast
  then have price: "check_price_validity (Some p) ''price'' = Inr []"
    by (simp add: check_price_validity_valid)
  from t obtain t0 where "validate_timestamp now t0 = Inr t"
    unfolding accepted_strict_field by blast
  then have ts: "check_timestamp_validity now' (Some t) = Inr []"
    using assms(2) by (rule check_timestamp_validity_valid)
  show ?thesis
    unfolding d by (simp add: validate_market_data_def price ts sym check_required_fields_market_def)
qed

lemma validate_trade_data_constructed:
  assumes "TradeData_init now P raw = Inr d" and "now \<le> now'"
  shows "validate_trade_data now' d = Inr (True, [])"
proof -
  from TradeData_init_Inr[OF assms(1)] obtain i c s sd q p t v where
    d: "d = \<lparr>td_trade_id = Some i, td_client_id = Some c, td_symbol = Some s,
                td_side = Some sd, td_quantity = Some q, td_price = Some p,
                td_timestamp = Some t, td_venue = Some v\<rparr>"
    and i: "accepted (strict_field ''string'' validate_trade_id (raw_td_trade_id raw)) = Some i"
    and s: "accepted (strict_field ''string'' validate_symbol (raw_td_symbol raw)) = Some s"
    and sd: "accepted (run_validator (validate_side (raw_td_side raw))) = Some sd"
    and q: "accepted (run_validator (validate_quantity P (raw_td_quantity raw))) = Some q"
    and p: "accepted (run_validator (validate_price P (raw_td_price raw))) = Some p"
    and t: "accepted (strict_field ''datetime'' (validate_timestamp now) (raw_td_timestamp raw)) = Some t"
    and v: "accepted (strict_field ''string'' validate_venue (raw_td_venue raw)) = Some v"
    by blast
  from s obtain s0 where "validate_symbol s0 = Inr s"
    unfolding accepted_strict_field by blast
  then have sym: "check_symbol_format (Some s) = []"
    by (rule check_symbol_format_valid)
  from p have "validate_decimal PRICE_VALIDITY ''price'' P (raw_td_price raw) = Inr p"
    unfolding accepted_run_validator validate_price_def .
  then obtain c1 e1 where "p = Finite False c1 e1" "0 < c1" "- 4 \<le> e1"
    using validate_decimal_Inr by blast
  then have price: "check_price_validity (Some p) ''price'' = Inr []"
    by (simp add: check_price_validity_valid)
  from q have "validate_decimal QUANTITY_VALIDITY ''quantity'' P (raw_td_quantity raw) = Inr q"
    unfolding accepted_run_validator validate_quantity_def .
  then obtain c2 e2 where q': "q = Finite False c2 e2" "0 < c2" "- 4 \<le> e2"
    using validate_decimal_Inr by blast
  then have quantity: "check_price_validity (Some q) ''quantity'' = Inr []"
    by (simp add: check_price_validity_valid)
  from t obtain t0 where "validate_timestamp now t0 = Inr t"
    unfolding accepted_strict_field by blast
  then have ts: "check_timestamp_validity now' (Some t) = Inr []"
    using assms(2) by (rule check_timestamp_validity_valid)
  from i have bi: "\<not> blank (Some i)"
    unfolding accepted_strict_field validate_trade_id_def validate_non_empty_Inr by blast
  from v have bv: "\<not> blank (Some v)"
    unfolding accepted_strict_field validate_venue_def validate_non_empty_Inr by blast
  from sd have side: "sd \<in> set VALID_SIDES"
    unfolding accepted_run_validator validate_side_Inr by blast
  have rules: "check_trade_specific_rules d = Inr []"
    unfolding d using q' bi bv side by (simp add: check_trade_specific_rules_def)
  show ?thesis
    using rules unfolding d
    by (simp add: validate_trade_data_def price quantity ts sym check_required_fields_trade_def)
qed

lemma filter_field_errors:
  "filter (\<lambda>e. fst e = g) (field_errors f outcome) = (if f = g then field_errors f outcome else [])"
  by (cases outcome) auto

lemma symbol_field_errors:
  "field_errors ''symbol'' (strict_field ty validate_symbol (Some v)) =
     (case failing_symbol_rules v of [] \<Rightarrow> [] | m # ms \<Rightarrow> [(''symbol'', m)])"
  by (simp add: strict_field_def run_validator_def validate_symbol_def failing_symbol_rules_def)

lemma MarketData_init_ValidationError:
  assumes "MarketData_init now P raw = Inl (ValidationError errors)"
  shows "errors =
     field_errors ''symbol'' (strict_field ''string'' validate_symbol (raw_md_symbol raw))
     @ field_errors ''price'' (run_validator (validate_price P (raw_md_price raw)))
     @ field_errors ''timestamp'' (strict_field ''datetime'' (validate_timestamp now) (raw_md_timestamp raw))
     @ field_errors ''volume'' (strict_field ''integer'' validate_volume (raw_md_volume raw))
     @ field_errors ''source'' (strict_field ''string'' validate_source (raw_md_source raw))"
  using assms unfolding MarketData_init_def Let_def
  by (simp split: list.splits option.splits)

lemma TradeData_init_ValidationError:
  assumes "TradeData_init now P raw = Inl (ValidationError errors)"
  shows "errors =
     field_errors ''trade_id'' (strict_field ''string'' validate_trade_id (raw_td_trade_id raw))
     @ field_errors ''client_id'' (strict_field ''string'' validate_client_id (raw_td_client_id raw))
     @ field_errors ''symbol'' (strict_field ''string'' validate_symbol (raw_td_symbol raw))
     @ field_errors ''side'' (run_validator (validate_side (raw_td_side raw)))
     @ field_errors ''quantity'' (run_validator (validate_quantity P (raw_td_quantity raw)))
     @ field_errors ''price'' (run_validator (validate_price P (raw_td_price raw)))
     @ field_errors ''timestamp'' (strict_field ''datetime'' (validate_timestamp now) (raw_td_timestamp raw))
     @ field_errors ''venue'' (strict_field ''string'' validate_venue (raw_td_venue raw))"
  using assms unfolding TradeData_init_def Let_def
  by (simp split: list.splits option.splits)






lemma not_accepted_Inl: "r = Inl e \<Longrightarrow> accepted (run_validator r) = None"
  by (cases e) (simp_all add: run_validator_def)



















subsection \<open>Null fields\<close>

text \<open>
  Claim C1. The validator is to return a pair for every record, also for one with a null
  field, and a null field is to silence only the checks that need it. On a market record
  whose timestamp is \<^verbatim>\<open>None\<close> the call does not return: \<^verbatim>\<open>ts.tzinfo\<close> raises
  \<^verbatim>\<open>AttributeError\<close> in the timestamp check, although the required-fields check has just
  recorded the missing field and the price and symbol checks guard against \<^verbatim>\<open>None\<close>. On a
  trade record whose quantity is \<^verbatim>\<open>None\<close>, \<^verbatim>\<open>data.quantity <= 0\<close> raises \<^verbatim>\<open>TypeError\<close>.
\<close>

theorem validate_market_data_null_timestamp:
  "validate_market_data 1736951400000000
     \<lparr>md_symbol = Some ''AAPL'', md_price = Some (Finite False 17543 (-2)),
      md_timestamp = None, md_volume = Some 2500000, md_source = Some ''iex_cloud''\<rparr>
   = Inl AttributeError
   \<and> validate_trade_data 1736951400000000
     \<lparr>td_trade_id = Some ''TRD-2025-0001'', td_client_id = Some ''CLIENT-001'',
      td_symbol = Some ''AAPL'', td_side = Some ''BUY'', td_quantity = None,
      td_price = Some (Finite False 17543 (-2)),
      td_timestamp = Some \<lparr>year = 2025, instant = 1736951400000000, tzinfo = Some (Tzinfo (Some 0))\<rparr>,
      td_venue = Some ''NASDAQ''\<rparr>
   = Inl TypeError"
  by (simp add: validate_market_data_def validate_trade_data_def check_price_validity_def
        check_timestamp_validity_def check_trade_specific_rules_def MAX_DECIMAL_PLACES_def
        later_than_def utcoffset_def max_future_def MAX_FUTURE_MINUTES_def MIN_VALID_YEAR_def)

subsection \<open>Construction and validation agree\<close>

text \<open>
  Claim C2. When the constructor of either class accepts a raw input, the contract
  validator, called on the constructed record at the same or a later reading of the clock,
  returns \<open>(True, [])\<close>.
\<close>

theorem construction_then_validation:
  "(MarketData_init now P raw_md = Inr md \<and> now \<le> now'
      \<longrightarrow> validate_market_data now' md = Inr (True, []))
   \<and> (TradeData_init now P raw_td = Inr td \<and> now \<le> now'
      \<longrightarrow> validate_trade_data now' td = Inr (True, []))"
  using validate_market_data_constructed validate_trade_data_constructed by blast

theorem construction_then_validation_witness:
  "MarketData_init 1736951400000000
      (\<lambda>s. if s = ''175.4300'' then Some (Finite False 1754300 (- 4)) else None)
      \<lparr>raw_md_symbol = Some ''AAPL'', raw_md_price = Not_Decimal ''175.4300'',
       raw_md_timestamp =
         Some \<lparr>year = 2025, instant = 1736951400000000, tzinfo = Some (Tzinfo (Some 0))\<rparr>,
       raw_md_volume = Some 2500000, raw_md_source = Some ''iex_cloud''\<rparr>
    = Inr \<lparr>md_symbol = Some ''AAPL'', md_price = Some (Finite False 1754300 (- 4)),
           md_timestamp =
             Some \<lparr>year = 2025, instant = 1736951400000000, tzinfo = Some (Tzinfo (Some 0))\<rparr>,
           md_volume = Some 2500000, md_source = Some ''iex_cloud''\<rparr>
   \<and> validate_market_data 1736951401000000
        \<lparr>md_symbol = Some ''AAPL'', md_price = Some (Finite False 1754300 (- 4)),
         md_timestamp =
           Some \<lparr>year = 2025, instant = 1736951400000000, tzinfo = Some (Tzinfo (Some 0))\<rparr>,
         md_volume = Some 2500000, md_source = Some ''iex_cloud''\<rparr>
      = Inr (True, [])
   \<and> TradeData_init 1736951400000000 (\<lambda>s. None)
        \<lparr>raw_td_trade_id = Some ''TRD-2025-0001'', raw_td_client_id = Some ''CLIENT-001'',
         raw_td_symbol = Some ''AAPL'', raw_td_side = Some ''BUY'',
         raw_td_quantity = Is_Decimal (Finite False 1000000 (- 4)),
         raw_td_price = Is_Decimal (Finite False 1754300 (- 4)),
         raw_td_timestamp =
           Some \<lparr>year = 2025, instant = 1736951400000000, tzinfo = Some (Tzinfo (Some 0))\<rparr>,
         raw_td_venue = Some ''NASDAQ''\<rparr>
      = Inr \<lparr>td_trade_id = Some ''TRD-2025-0001'', td_client_id = Some ''CLIENT-001'',
             td_symbol = Some ''AAPL'', td_side = Some ''BUY'',
             td_quantity = Some (Finite False 1000000 (- 4)),
             td_price = Some (Finite False 1754300 (- 4)),
             td_timestamp =
               Some \<lparr>year = 2025, instant = 1736951400000000, tzinfo = Some (Tzinfo (Some 0))\<rparr>,
             td_venue = Some ''NASDAQ''\<rparr>
   \<and> validate_trade_data 1736951401000000
        \<lparr>td_trade_id = Some ''TRD-2025-0001'', td_client_id = Some ''CLIENT-001'',
         td_symbol = Some ''AAPL'', td_side = Some ''BUY'',
         td_quantity = Some (Finite False 1000000 (- 4)),
         td_price = Some (Finite False 1754300 (- 4)),
         td_timestamp =
           Some \<lparr>year = 2025, instant = 1736951400000000, tzinfo = Some (Tzinfo (Some 0))\<rparr>,
         td_venue = Some ''NASDAQ''\<rparr>
      = Inr (True, [])"
proof -
  let ?P = "\<lambda>s. if s = ''175.4300'' then Some (Finite False 1754300 (- 4)) else None"
  let ?ts = "\<lparr>year = 2025, instant = 1736951400000000, tzinfo = Some (Tzinfo (Some 0))\<rparr>"
  let ?raw_md = "\<lparr>raw_md_symbol = Some ''AAPL'', raw_md_price = Not_Decimal ''175.4300'',
       raw_md_timestamp = Some ?ts,
       raw_md_volume = Some 2500000, raw_md_source = Some ''iex_cloud''\<rparr>"
  let ?md = "\<lparr>md_symbol = Some ''AAPL'', md_price = Some (Finite False 1754300 (- 4)),
           md_timestamp = Some ?ts,
           md_volume = Some 2500000, md_source = Some ''iex_cloud''\<rparr>"
  let ?raw_td = "\<lparr>raw_td_trade_id = Some ''TRD-2025-0001'', raw_td_client_id = Some ''CLIENT-001'',
         raw_td_symbol = Some ''AAPL'', raw_td_side = Some ''BUY'',
         raw_td_quantity = Is_Decimal (Finite False 1000000 (- 4)),
         raw_td_price = Is_Decimal (Finite False 1754300 (- 4)),
         raw_td_timestamp = Some ?ts,
         raw_td_venue = Some ''NASDAQ''\<rparr>"
  let ?td = "\<lparr>td_trade_id = Some ''TRD-2025-0001'', td_client_id = Some ''CLIENT-001'',
             td_symbol = Some ''AAPL'', td_side = Some ''BUY'',
             td_quantity = Some (Finite False 1000000 (- 4)),
             td_price = Some (Finite False 1754300 (- 4)),
             td_timestamp = Some ?ts,
             td_venue = Some ''NASDAQ''\<rparr>"
  have m: "MarketData_init 1736951400000000 ?P ?raw_md = Inr ?md"
    by (simp add: string_eval MarketData_init_def strict_field_def
        run_validator_def validate_symbol_def validate_price_def validate_decimal_def
        check_decimal_def validate_timestamp_def validate_volume_def validate_source_def
        validate_non_empty_def MAX_DECIMAL_PLACES_def
        later_than_def utcoffset_def max_future_def MAX_FUTURE_MINUTES_def MIN_VALID_YEAR_def)
  have t: "TradeData_init 1736951400000000 (\<lambda>s. None) ?raw_td = Inr ?td"
    by (simp add: string_eval TradeData_init_def strict_field_def
        run_validator_def validate_symbol_def validate_price_def validate_quantity_def
        validate_decimal_def validate_side_def VALID_SIDES_def validate_trade_id_def
        validate_client_id_def validate_venue_def
        check_decimal_def validate_timestamp_def
        validate_non_empty_def MAX_DECIMAL_PLACES_def
        later_than_def utcoffset_def max_future_def MAX_FUTURE_MINUTES_def MIN_VALID_YEAR_def)
  have le: "(1736951400000000 :: int) \<le> 1736951401000000" by simp
  from m le have "validate_market_data 1736951401000000 ?md = Inr (True, [])"
    using construction_then_validation[of 1736951400000000 ?P ?raw_md ?md 1736951401000000]
    by blast
  moreover from t le have "validate_trade_data 1736951401000000 ?td = Inr (True, [])"
    using construction_then_validation[of 1736951400000000 "\<lambda>s. None" _ _ 1736951401000000 ?raw_td ?td]
    by blast
  ultimately show ?thesis using m t by (intro conjI)
qed

subsection \<open>Symbol rules at construction\<close>

text \<open>
  Claim C3, as amended. \<open>validate_symbol\<close> tests the symbol rules in the order non-empty,
  uppercase, length, pattern and raises at the first rule that fails: the construction
  error carries exactly one entry for the symbol field, the message of the first failing
  rule, and none when the symbol breaks no rule.
\<close>

theorem symbol_first_failing_rule_only:
  "validate_symbol v =
     (case failing_symbol_rules v of [] \<Rightarrow> Inr v | m # ms \<Rightarrow> Inl (ValueError m))
   \<and> (MarketData_init now P raw_md = Inl (ValidationError errors) \<and> raw_md_symbol raw_md = Some v
       \<longrightarrow> filter (\<lambda>e. fst e = ''symbol'') errors =
             (case failing_symbol_rules v of [] \<Rightarrow> [] | m # ms \<Rightarrow> [(''symbol'', m)]))
   \<and> (TradeData_init now P raw_td = Inl (ValidationError errors') \<and> raw_td_symbol raw_td = Some v
       \<longrightarrow> filter (\<lambda>e. fst e = ''symbol'') errors' =
             (case failing_symbol_rules v of [] \<Rightarrow> [] | m # ms \<Rightarrow> [(''symbol'', m)]))"
proof (intro conjI impI)
  show "validate_symbol v =
     (case failing_symbol_rules v of [] \<Rightarrow> Inr v | m # ms \<Rightarrow> Inl (ValueError m))"
    by (rule validate_symbol_first_failing)
next
  assume a: "MarketData_init now P raw_md = Inl (ValidationError errors) \<and> raw_md_symbol raw_md = Some v"
  show "filter (\<lambda>e. fst e = ''symbol'') errors =
             (case failing_symbol_rules v of [] \<Rightarrow> [] | m # ms \<Rightarrow> [(''symbol'', m)])"
    using a unfolding MarketData_init_ValidationError[OF conjunct1[OF a]]
    by (simp add: filter_field_errors symbol_field_errors)
next
  assume a: "TradeData_init now P raw_td = Inl (ValidationError errors') \<and> raw_td_symbol raw_td = Some v"
  show "filter (\<lambda>e. fst e = ''symbol'') errors' =
             (case failing_symbol_rules v of [] \<Rightarrow> [] | m # ms \<Rightarrow> [(''symbol'', m)])"
    using a unfolding TradeData_init_ValidationError[OF conjunct1[OF a]]
    by (simp add: filter_field_errors symbol_field_errors)
qed

theorem symbol_first_failing_rule_only_witness:
  "MarketData_init 1736951400000000 (\<lambda>s. None)
      \<lparr>raw_md_symbol = Some ''aapl aapl aapl'',
       raw_md_price = Is_Decimal (Finite True 1050 (- 2)),
       raw_md_timestamp =
         Some \<lparr>year = 2025, instant = 1736951400000000, tzinfo = Some (Tzinfo (Some 0))\<rparr>,
       raw_md_volume = Some 2500000, raw_md_source = Some ''iex_cloud''\<rparr>
    = Inl (ValidationError
        [(''symbol'', Message SYMBOL_FORMAT (Must_be_uppercase_only ''aapl aapl aapl'')),
         (''price'', Message PRICE_VALIDITY (Must_be_positive ''price'' (Finite True 1050 (- 2))))])
   \<and> failing_symbol_rules ''aapl aapl aapl'' =
       [Message SYMBOL_FORMAT (Must_be_uppercase_only ''aapl aapl aapl''),
        Message SYMBOL_FORMAT (Must_be_1_10_characters 14),
        Message SYMBOL_FORMAT (Must_contain_only_uppercase_digits_periods ''aapl aapl aapl'')]
   \<and> validate_symbol ''aapl aapl aapl''
       = Inl (ValueError (Message SYMBOL_FORMAT (Must_be_uppercase_only ''aapl aapl aapl'')))"
proof -
  let ?raw = "\<lparr>raw_md_symbol = Some ''aapl aapl aapl'',
       raw_md_price = Is_Decimal (Finite True 1050 (- 2)),
       raw_md_timestamp =
         Some \<lparr>year = 2025, instant = 1736951400000000, tzinfo = Some (Tzinfo (Some 0))\<rparr>,
       raw_md_volume = Some 2500000, raw_md_source = Some ''iex_cloud''\<rparr>"
  have f: "failing_symbol_rules ''aapl aapl aapl'' =
       [Message SYMBOL_FORMAT (Must_be_uppercase_only ''aapl aapl aapl''),
        Message SYMBOL_FORMAT (Must_be_1_10_characters 14),
        Message SYMBOL_FORMAT (Must_contain_only_uppercase_digits_periods ''aapl aapl aapl'')]"
    by (simp add: failing_symbol_rules_def string_eval)
  have i: "MarketData_init 1736951400000000 (\<lambda>s. None) ?raw
    = Inl (ValidationError
        [(''symbol'', Message SYMBOL_FORMAT (Must_be_uppercase_only ''aapl aapl aapl'')),
         (''price'', Message PRICE_VALIDITY (Must_be_positive ''price'' (Finite True 1050 (- 2))))])"
    by (simp add: string_eval MarketData_init_def strict_field_def
        run_validator_def validate_symbol_def validate_price_def validate_decimal_def
        check_decimal_def validate_timestamp_def validate_volume_def validate_source_def
        validate_non_empty_def MAX_DECIMAL_PLACES_def
        later_than_def utcoffset_def max_future_def MAX_FUTURE_MINUTES_def MIN_VALID_YEAR_def)
  have "validate_symbol ''aapl aapl aapl''
       = Inl (ValueError (Message SYMBOL_FORMAT (Must_be_uppercase_only ''aapl aapl aapl'')))"
    using symbol_first_failing_rule_only[of "''aapl aapl aapl''"] unfolding f by simp
  with f i show ?thesis by (intro conjI)
qed

text \<open>
  The claim as first stated, that every failing rule is reported, fails for the symbol
  \<^verbatim>\<open>aapl\<close>: it breaks the uppercase rule and the pattern rule, and the construction error
  holds the uppercase message alone.
\<close>

theorem symbol_first_rule_only_counterexample:
  "failing_symbol_rules ''aapl'' =
     [Message SYMBOL_FORMAT (Must_be_uppercase_only ''aapl''),
      Message SYMBOL_FORMAT (Must_contain_only_uppercase_digits_periods ''aapl'')]
   \<and> MarketData_init 1736951400000000 (\<lambda>s. None)
        \<lparr>raw_md_symbol = Some ''aapl'', raw_md_price = Is_Decimal (Finite False 17543 (-2)),
         raw_md_timestamp = Some \<lparr>year = 2025, instant = 1736951400000000, tzinfo = Some (Tzinfo (Some 0))\<rparr>,
         raw_md_volume = Some 2500000, raw_md_source = Some ''iex_cloud''\<rparr>
      = Inl (ValidationError [(''symbol'', Message SYMBOL_FORMAT (Must_be_uppercase_only ''aapl''))])"
  by (simp add: failing_symbol_rules_def string_eval MarketData_init_def strict_field_def
        run_validator_def validate_symbol_def validate_price_def validate_decimal_def
        check_decimal_def validate_timestamp_def validate_volume_def validate_source_def
        validate_non_empty_def MAX_DECIMAL_PLACES_def
        later_than_def utcoffset_def max_future_def MAX_FUTURE_MINUTES_def MIN_VALID_YEAR_def)

subsection \<open>Price and quantity\<close>




subsection \<open>A non-positive quantity is reported twice\<close>




end
